theory Spec2Isabelle
  imports Complex_Main
begin

section \<open>Data model of \<open>qutip_qip/circuit.py\<close>\<close>

text \<open>
  Python exceptions are values.  Each constructor is the exception class raised by the
  source; the argument of \<open>NotImplementedError\<close> and \<open>ValueError\<close> names the
  message of the raise statement.
\<close>

datatype message =
    MeasurementsPresent
  | NotValidBasisGate string
  | NotSufficientSingleQubit
  | NotValidTwoQubitBasis string
  | CannotBeResolved string
  | CannotResolveInThisBasis
  | AdjacentNotDefined string
  | ModeNotAvailable string
  | TargetNotValid

datatype error =
    NotImplementedError message
  | ValueError message
  | TypeError
  | IndexError
  | AttributeError
  | ZeroDivisionError

text \<open>
  The error taxonomy of the specification, read off the raise statements:
  a SequencingError is the \<open>NotImplementedError\<close> raised when the program already
  holds a measurement; an InvalidBasisError is either raise of the basis validation of
  \<open>resolve_gates\<close>.
\<close>

fun is_SequencingError :: "error \<Rightarrow> bool" where
  "is_SequencingError (NotImplementedError MeasurementsPresent) = True"
| "is_SequencingError _ = False"

fun is_InvalidBasisError :: "error \<Rightarrow> bool" where
  "is_InvalidBasisError (NotImplementedError (NotValidBasisGate _)) = True"
| "is_InvalidBasisError (ValueError NotSufficientSingleQubit) = True"
| "is_InvalidBasisError (ValueError (NotValidTwoQubitBasis _)) = True"
| "is_InvalidBasisError _ = False"

definition ebind :: "error + 'a \<Rightarrow> ('a \<Rightarrow> error + 'b) \<Rightarrow> error + 'b" where
  "ebind m f = (case m of Inl e \<Rightarrow> Inl e | Inr x \<Rightarrow> f x)"

text \<open>
  Modelled from the spec: the \<open>Gate\<close> class of the \<open>operations\<close> module, which
  this file imports.  A gate has a name, an ordered list of target qubits, an optional
  ordered list of control qubits, an optional numeric argument (an angle: a Python float
  built from \<open>np.pi\<close>, modelled as a real), a display label, and an optional
  classical-control set with its required value.  The fields are the keyword arguments
  that \<open>add_gate\<close> passes to the constructor.
\<close>

record gate =
  name :: string
  targets :: "int list option"
  controls :: "int list option"
  arg_value :: "real option"
  arg_label :: "string option"
  classical_controls :: "int list option"
  control_value :: "int option"
  classical_control_value :: "int option"

text \<open>
  Modelled from the spec: the constructor call
  \<open>Gate(name, targets, controls, arg_value, arg_label)\<close> of the rewrite rules.  Like
  the constructor of \<open>Measurement\<close> in this file, it stores its arguments, an integer
  operand as a one-element list (written out at each call below); the other fields are
  \<open>None\<close>.
\<close>

definition Gate ::
  "string \<Rightarrow> int list option \<Rightarrow> int list option \<Rightarrow> real option \<Rightarrow> string option \<Rightarrow> gate" where
  "Gate n t c a l =
     \<lparr> name = n, targets = t, controls = c, arg_value = a, arg_label = l,
       classical_controls = None, control_value = None, classical_control_value = None \<rparr>"

datatype measurement =
  Measurement (m_name: string) (m_targets: "int list option") (classical_store: "int option")

datatype circuit_op = GateOp gate | MeasurementOp measurement

fun is_measurement :: "circuit_op \<Rightarrow> bool" where
  "is_measurement (MeasurementOp _) = True"
| "is_measurement (GateOp _) = False"

fun gates_of :: "circuit_op list \<Rightarrow> gate list" where
  "gates_of [] = []"
| "gates_of (GateOp g # ops) = g # gates_of ops"
| "gates_of (MeasurementOp _ # ops) = gates_of ops"

text \<open>\<open>xs[i]\<close> for a literal index \<open>i\<close> on an operand list that may be \<open>None\<close>.\<close>

fun subscript :: "int list option \<Rightarrow> nat \<Rightarrow> error + int" where
  "subscript None i = Inl TypeError"
| "subscript (Some xs) i = (if i < length xs then Inr (xs ! i) else Inl IndexError)"

text \<open>The raw-string labels: \<open>pi_label a b\<close> is \<open>a\<close>, a backslash, \<open>pi\<close>, \<open>b\<close>.\<close>

definition pi_label :: "string \<Rightarrow> string \<Rightarrow> string option" where
  "pi_label a b = Some (a @ CHR 0x5C # ''pi'' @ b)"

section \<open>Universal basis resolver: the rewrite rules\<close>

definition gate_IGNORED :: "gate \<Rightarrow> error + gate list" where
  "gate_IGNORED g = Inr [g]"

definition gate_SQRTNOT :: "gate \<Rightarrow> error + gate list" where
  "gate_SQRTNOT g = Inr
     [ Gate ''GLOBALPHASE'' None None (Some (pi / 4)) (pi_label [] ''/4''),
       Gate ''RX'' (targets g) None (Some (pi / 2)) (pi_label [] ''/2'') ]"

definition gate_SNOT :: "gate \<Rightarrow> error + gate list" where
  "gate_SNOT g = Inr
     [ Gate ''GLOBALPHASE'' None None (Some (pi / 2)) (pi_label [] ''/2''),
       Gate ''RY'' (targets g) None (Some (pi / 2)) (pi_label [] ''/2''),
       Gate ''RX'' (targets g) None (Some pi) (pi_label [] []) ]"

definition gate_PHASEGATE :: "gate \<Rightarrow> error + gate list" where
  "gate_PHASEGATE g =
     (case arg_value g of
        None \<Rightarrow> Inl TypeError
      | Some a \<Rightarrow> Inr
          [ Gate ''GLOBALPHASE'' None None (Some (a / 2)) (arg_label g),
            Gate ''RZ'' (targets g) None (arg_value g) (arg_label g) ])"

definition gate_NOTIMPLEMENTED :: "gate \<Rightarrow> error + gate list" where
  "gate_NOTIMPLEMENTED g = Inl (NotImplementedError CannotResolveInThisBasis)"

definition gate_CSIGN :: "gate \<Rightarrow> error + gate list" where
  "gate_CSIGN g = Inr
     [ Gate ''RY'' (targets g) None (Some (pi / 2)) (pi_label [] ''/2''),
       Gate ''RX'' (targets g) None (Some pi) (pi_label [] []),
       Gate ''CNOT'' (targets g) (controls g) None None,
       Gate ''RY'' (targets g) None (Some (pi / 2)) (pi_label [] ''/2''),
       Gate ''RX'' (targets g) None (Some pi) (pi_label [] []),
       Gate ''GLOBALPHASE'' None None (Some pi) (pi_label [] []) ]"

definition gate_SWAP :: "gate \<Rightarrow> error + gate list" where
  "gate_SWAP g =
     ebind (subscript (targets g) 0) (\<lambda>t0.
     ebind (subscript (targets g) 1) (\<lambda>t1. Inr
       [ Gate ''CNOT'' (Some [t0]) (Some [t1]) None None,
         Gate ''CNOT'' (Some [t1]) (Some [t0]) None None,
         Gate ''CNOT'' (Some [t0]) (Some [t1]) None None ]))"

definition gate_ISWAP :: "gate \<Rightarrow> error + gate list" where
  "gate_ISWAP g =
     ebind (subscript (targets g) 0) (\<lambda>t0.
     ebind (subscript (targets g) 1) (\<lambda>t1. Inr
       [ Gate ''CNOT'' (Some [t0]) (Some [t1]) None None,
         Gate ''CNOT'' (Some [t1]) (Some [t0]) None None,
         Gate ''CNOT'' (Some [t0]) (Some [t1]) None None,
         Gate ''RZ'' (Some [t0]) None (Some (pi / 2)) (pi_label [] ''/2''),
         Gate ''RZ'' (Some [t1]) None (Some (pi / 2)) (pi_label [] ''/2''),
         Gate ''RY'' (Some [t0]) None (Some (pi / 2)) (pi_label [] ''/2''),
         Gate ''RX'' (Some [t0]) None (Some pi) (pi_label [] []),
         Gate ''CNOT'' (Some [t0]) (Some [t1]) None None,
         Gate ''RY'' (Some [t0]) None (Some (pi / 2)) (pi_label [] ''/2''),
         Gate ''RX'' (Some [t0]) None (Some pi) (pi_label [] []),
         Gate ''GLOBALPHASE'' None None (Some pi) (pi_label [] []),
         Gate ''GLOBALPHASE'' None None (Some (pi / 2)) (pi_label [] ''/2'') ]))"

definition gate_FREDKIN :: "gate \<Rightarrow> error + gate list" where
  "gate_FREDKIN g =
     ebind (subscript (targets g) 1) (\<lambda>t1.
     ebind (subscript (targets g) 0) (\<lambda>t0. Inr
       [ Gate ''CNOT'' (Some [t0]) (Some [t1]) None None,
         Gate ''RZ'' (Some [t1]) None (Some pi) (pi_label [] []),
         Gate ''RX'' (Some [t1]) None (Some (pi / 2)) (pi_label [] ''/2''),
         Gate ''RZ'' (Some [t1]) None (Some (- pi / 2)) (pi_label ''-'' ''/2''),
         Gate ''RX'' (Some [t1]) None (Some (pi / 2)) (pi_label [] ''/2''),
         Gate ''RZ'' (Some [t1]) None (Some pi) (pi_label [] []),
         Gate ''CNOT'' (Some [t1]) (Some [t0]) None None,
         Gate ''RZ'' (Some [t1]) None (Some (- pi / 4)) (pi_label ''-'' ''/4''),
         Gate ''CNOT'' (Some [t1]) (controls g) None None,
         Gate ''RZ'' (Some [t1]) None (Some (pi / 4)) (pi_label [] ''/4''),
         Gate ''CNOT'' (Some [t1]) (Some [t0]) None None,
         Gate ''RZ'' (Some [t0]) None (Some (pi / 4)) (pi_label [] ''/4''),
         Gate ''RZ'' (Some [t1]) None (Some (- pi / 4)) (pi_label ''-'' ''/4''),
         Gate ''CNOT'' (Some [t1]) (controls g) None None,
         Gate ''CNOT'' (Some [t0]) (controls g) None None,
         Gate ''RZ'' (controls g) None (Some (pi / 4)) (pi_label [] ''/4''),
         Gate ''RZ'' (Some [t0]) None (Some (- pi / 4)) (pi_label ''-'' ''/4''),
         Gate ''CNOT'' (Some [t0]) (controls g) None None,
         Gate ''RZ'' (Some [t1]) None (Some (- 3 * pi / 4)) (pi_label ''-3'' ''/4''),
         Gate ''RX'' (Some [t1]) None (Some (pi / 2)) (pi_label [] ''/2''),
         Gate ''RZ'' (Some [t1]) None (Some (- pi / 2)) (pi_label ''-'' ''/2''),
         Gate ''RX'' (Some [t1]) None (Some (pi / 2)) (pi_label [] ''/2''),
         Gate ''RZ'' (Some [t1]) None (Some pi) (pi_label [] []),
         Gate ''CNOT'' (Some [t0]) (Some [t1]) None None,
         Gate ''GLOBALPHASE'' None None (Some (pi / 8)) (pi_label [] ''/8'') ]))"

definition gate_TOFFOLI :: "gate \<Rightarrow> error + gate list" where
  "gate_TOFFOLI g =
     ebind (subscript (controls g) 1) (\<lambda>c1.
     ebind (subscript (controls g) 0) (\<lambda>c0. Inr
       [ Gate ''GLOBALPHASE'' None None (Some (pi / 8)) (pi_label [] ''/8''),
         Gate ''RZ'' (Some [c1]) None (Some (pi / 2)) (pi_label [] ''/2''),
         Gate ''RZ'' (Some [c0]) None (Some (pi / 4)) (pi_label [] ''/4''),
         Gate ''CNOT'' (Some [c1]) (Some [c0]) None None,
         Gate ''RZ'' (Some [c1]) None (Some (- (pi / 4))) (pi_label ''-'' ''/4''),
         Gate ''CNOT'' (Some [c1]) (Some [c0]) None None,
         Gate ''GLOBALPHASE'' None None (Some (pi / 2)) (pi_label [] ''/2''),
         Gate ''RY'' (targets g) None (Some (pi / 2)) (pi_label [] ''/2''),
         Gate ''RX'' (targets g) None (Some pi) (pi_label [] []),
         Gate ''RZ'' (Some [c1]) None (Some (- (pi / 4))) (pi_label ''-'' ''/4''),
         Gate ''RZ'' (targets g) None (Some (pi / 4)) (pi_label [] ''/4''),
         Gate ''CNOT'' (targets g) (Some [c0]) None None,
         Gate ''RZ'' (targets g) None (Some (- (pi / 4))) (pi_label ''-'' ''/4''),
         Gate ''CNOT'' (targets g) (Some [c1]) None None,
         Gate ''RZ'' (targets g) None (Some (pi / 4)) (pi_label [] ''/4''),
         Gate ''CNOT'' (targets g) (Some [c0]) None None,
         Gate ''RZ'' (targets g) None (Some (- (pi / 4))) (pi_label ''-'' ''/4''),
         Gate ''CNOT'' (targets g) (Some [c1]) None None,
         Gate ''GLOBALPHASE'' None None (Some (pi / 2)) (pi_label [] ''/2''),
         Gate ''RY'' (targets g) None (Some (pi / 2)) (pi_label [] ''/2''),
         Gate ''RX'' (targets g) None (Some pi) (pi_label [] []) ]))"

definition gate_GLOBALPHASE :: "gate \<Rightarrow> error + gate list" where
  "gate_GLOBALPHASE g =
     Inr [ Gate (name g) (targets g) (controls g) (arg_value g) (arg_label g) ]"

text \<open>
  \<open>getattr(self, "_gate_" + str(gate.name))\<close>: the methods and aliases of the class.
  A name with no method raises \<open>AttributeError\<close>.
\<close>

definition gate_method :: "string \<Rightarrow> gate \<Rightarrow> error + gate list" where
  "gate_method n g =
     (if n \<in> set [''IGNORED'', ''RY'', ''RZ'', ''basis_2q'', ''IDLE'', ''CNOT'', ''RX'']
        then gate_IGNORED g
      else if n = ''SQRTNOT'' then gate_SQRTNOT g
      else if n = ''SNOT'' then gate_SNOT g
      else if n = ''PHASEGATE'' then gate_PHASEGATE g
      else if n \<in> set [''NOTIMPLEMENTED'', ''BERKELEY'', ''SWAPalpha'', ''SQRTSWAP'',
                        ''SQRTISWAP'']
        then gate_NOTIMPLEMENTED g
      else if n = ''CSIGN'' then gate_CSIGN g
      else if n = ''SWAP'' then gate_SWAP g
      else if n = ''ISWAP'' then gate_ISWAP g
      else if n = ''FREDKIN'' then gate_FREDKIN g
      else if n = ''TOFFOLI'' then gate_TOFFOLI g
      else if n = ''GLOBALPHASE'' then gate_GLOBALPHASE g
      else Inl AttributeError)"

definition resolve_to_universal :: "gate \<Rightarrow> string list \<Rightarrow> error + gate list" where
  "resolve_to_universal g basis_2q =
     (if name g \<in> set basis_2q then gate_IGNORED g
      else if name g = ''SWAP'' \<and> ''ISWAP'' \<in> set basis_2q then gate_IGNORED g
      else gate_method (name g) g)"

section \<open>Two-qubit basis transformer\<close>

text \<open>
  Each \<open>_basis_X\<close> method loops over \<open>temp_resolved\<close> and appends to
  \<open>qc_temp.gates\<close>; \<open>basis_X_gate\<close> is the body of the loop for one gate and
  \<open>concat_rules\<close> is the loop.
\<close>

fun concat_rules :: "(gate \<Rightarrow> error + gate list) \<Rightarrow> gate list \<Rightarrow> error + gate list" where
  "concat_rules f [] = Inr []"
| "concat_rules f (g # gs) =
     ebind (f g) (\<lambda>out. ebind (concat_rules f gs) (\<lambda>rest. Inr (out @ rest)))"

definition basis_CSIGN_gate :: "gate \<Rightarrow> error + gate list" where
  "basis_CSIGN_gate g =
     (if name g = ''CNOT'' then Inr
        [ Gate ''RY'' (targets g) None (Some (- (pi / 2))) (pi_label ''-'' ''/2''),
          Gate ''CSIGN'' (targets g) (controls g) None None,
          Gate ''RY'' (targets g) None (Some (pi / 2)) (pi_label [] ''/2'') ]
      else Inr [g])"

definition basis_ISWAP_gate :: "gate \<Rightarrow> error + gate list" where
  "basis_ISWAP_gate g =
     (if name g = ''CNOT'' then
        ebind (subscript (controls g) 0) (\<lambda>c0.
        ebind (subscript (targets g) 0) (\<lambda>t0. Inr
          [ Gate ''GLOBALPHASE'' None None (Some (pi / 4)) (pi_label [] ''/4''),
            Gate ''ISWAP'' (Some [c0, t0]) None None None,
            Gate ''RZ'' (targets g) None (Some (- (pi / 2))) (pi_label ''-'' ''/2''),
            Gate ''RY'' (controls g) None (Some (- (pi / 2))) (pi_label ''-'' ''/2''),
            Gate ''RZ'' (controls g) None (Some (pi / 2)) (pi_label [] ''/2''),
            Gate ''ISWAP'' (Some [c0, t0]) None None None,
            Gate ''RY'' (targets g) None (Some (- (pi / 2))) (pi_label ''-'' ''/2''),
            Gate ''RZ'' (targets g) None (Some (pi / 2)) (pi_label [] ''/2'') ]))
      else if name g = ''SWAP'' then
        ebind (subscript (targets g) 0) (\<lambda>t0.
        ebind (subscript (targets g) 1) (\<lambda>t1. Inr
          [ Gate ''GLOBALPHASE'' None None (Some (pi / 4)) (pi_label [] ''/4''),
            Gate ''ISWAP'' (targets g) None None None,
            Gate ''RX'' (Some [t0]) None (Some (- (pi / 2))) (pi_label ''-'' ''/2''),
            Gate ''ISWAP'' (targets g) None None None,
            Gate ''RX'' (Some [t1]) None (Some (- (pi / 2))) (pi_label ''-'' ''/2''),
            Gate ''ISWAP'' (Some [t1, t0]) None None None,
            Gate ''RX'' (Some [t0]) None (Some (- (pi / 2))) (pi_label ''-'' ''/2'') ]))
      else Inr [g])"

definition basis_SQRTSWAP_gate :: "gate \<Rightarrow> error + gate list" where
  "basis_SQRTSWAP_gate g =
     (if name g = ''CNOT'' then
        ebind (subscript (controls g) 0) (\<lambda>c0.
        ebind (subscript (targets g) 0) (\<lambda>t0. Inr
          [ Gate ''RY'' (targets g) None (Some (pi / 2)) (pi_label [] ''/2''),
            Gate ''SQRTSWAP'' (Some [c0, t0]) None None None,
            Gate ''RZ'' (controls g) None (Some pi) (pi_label [] []),
            Gate ''SQRTSWAP'' (Some [c0, t0]) None None None,
            Gate ''RZ'' (targets g) None (Some (- (pi / 2))) (pi_label ''-'' ''/2''),
            Gate ''RY'' (targets g) None (Some (- (pi / 2))) (pi_label ''-'' ''/2''),
            Gate ''RZ'' (controls g) None (Some (- (pi / 2))) (pi_label ''-'' ''/2'') ]))
      else Inr [g])"

definition basis_SQRTISWAP_gate :: "gate \<Rightarrow> error + gate list" where
  "basis_SQRTISWAP_gate g =
     (if name g = ''CNOT'' then
        ebind (subscript (controls g) 0) (\<lambda>c0.
        ebind (subscript (targets g) 0) (\<lambda>t0. Inr
          [ Gate ''RY'' (controls g) None (Some (- (pi / 2))) (pi_label ''-'' ''/2''),
            Gate ''RX'' (controls g) None (Some (pi / 2)) (pi_label [] ''/2''),
            Gate ''RX'' (targets g) None (Some (- (pi / 2))) (pi_label ''-'' ''/2''),
            Gate ''SQRTISWAP'' (Some [c0, t0]) None None None,
            Gate ''RX'' (controls g) None (Some pi) (pi_label [] []),
            Gate ''SQRTISWAP'' (Some [c0, t0]) None None None,
            Gate ''RY'' (controls g) None (Some (pi / 2)) (pi_label [] ''/2''),
            Gate ''GLOBALPHASE'' None None (Some (pi / 4)) (pi_label [] ''/4''),
            Gate ''RZ'' (controls g) None (Some pi) (pi_label [] []),
            Gate ''GLOBALPHASE'' None None (Some (3 * (pi / 2))) (pi_label ''3'' ''/2'') ]))
      else Inr [g])"

text \<open>
  \<open>_resolve_2q_basis\<close> is only called with one of the four names below, each of which
  has a \<open>_basis_\<close> method.
\<close>

definition resolve_2q_basis :: "string \<Rightarrow> gate list \<Rightarrow> gate list \<Rightarrow> error + gate list" where
  "resolve_2q_basis basis qc_temp temp_resolved =
     ebind (concat_rules
              (if basis = ''CSIGN'' then basis_CSIGN_gate
               else if basis = ''ISWAP'' then basis_ISWAP_gate
               else if basis = ''SQRTSWAP'' then basis_SQRTSWAP_gate
               else basis_SQRTISWAP_gate) temp_resolved)
       (\<lambda>out. Inr (qc_temp @ out))"

section \<open>\<open>resolve_gates\<close>\<close>

datatype basis_request = BasisList "string list" | BasisName string

definition basis_1q_valid :: "string list" where
  "basis_1q_valid = [''RX'', ''RY'', ''RZ'', ''IDLE'']"

definition basis_2q_valid :: "string list" where
  "basis_2q_valid = [''CNOT'', ''CSIGN'', ''ISWAP'', ''SQRTSWAP'', ''SQRTISWAP'']"

text \<open>
  The loop that sorts the tokens of a list-shaped request into \<open>basis_1q\<close> and
  \<open>basis_2q\<close>, raising at the first token that is in neither table.
\<close>

fun split_basis ::
  "string list \<Rightarrow> string list \<times> string list \<Rightarrow> error + string list \<times> string list" where
  "split_basis [] acc = Inr acc"
| "split_basis (tok # toks) (basis_1q, basis_2q) =
     (if tok \<in> set basis_2q_valid then split_basis toks (basis_1q, basis_2q @ [tok])
      else if tok \<in> set basis_1q_valid then split_basis toks (basis_1q @ [tok], basis_2q)
      else Inl (NotImplementedError (NotValidBasisGate tok)))"

definition parse_basis :: "basis_request \<Rightarrow> error + string list \<times> string list" where
  "parse_basis basis =
     (case basis of
        BasisList toks \<Rightarrow>
          ebind (split_basis toks ([], [])) (\<lambda>(basis_1q, basis_2q).
            if length basis_1q = 1 then Inl (ValueError NotSufficientSingleQubit)
            else if length basis_1q = 0 then Inr ([''RX'', ''RY'', ''RZ''], basis_2q)
            else Inr (basis_1q, basis_2q))
      | BasisName b \<Rightarrow>
          if b \<in> set basis_2q_valid then Inr ([''RX'', ''RY'', ''RZ''], [b])
          else Inl (ValueError (NotValidTwoQubitBasis b)))"

text \<open>
  The per-gate loop.  The state is the pair \<open>(qc_temp.gates, temp_resolved)\<close>: the
  phase gate of an \<open>X\<close>, \<open>Y\<close> or \<open>Z\<close> gate is appended to the first list, the output
  of the rewrite rule to the second.  An \<open>AttributeError\<close> of the dispatch is re-raised
  as \<open>NotImplementedError\<close>.
\<close>

fun resolve_loop ::
  "string list \<Rightarrow> gate list \<Rightarrow> gate list \<times> gate list \<Rightarrow> error + gate list \<times> gate list" where
  "resolve_loop basis_2q [] acc = Inr acc"
| "resolve_loop basis_2q (g0 # gs) (qc_temp, temp_resolved) =
     (let pauli = name g0 \<in> set [''X'', ''Y'', ''Z''];
          qc_temp' = (if pauli
                      then qc_temp @ [Gate ''GLOBALPHASE'' None None (Some (pi / 2)) None]
                      else qc_temp);
          g = (if pauli then Gate (''R'' @ name g0) (targets g0) None (Some pi) None else g0)
      in case resolve_to_universal g basis_2q of
           Inl AttributeError \<Rightarrow> Inl (NotImplementedError (CannotBeResolved (name g)))
         | Inl e \<Rightarrow> Inl e
         | Inr out \<Rightarrow> resolve_loop basis_2q gs (qc_temp', temp_resolved @ out))"

text \<open>
  The stage after the loop: the first of the four alternative two-qubit bases that the
  request names transforms \<open>temp_resolved\<close>; without one, \<open>qc_temp.gates\<close> is
  overwritten with \<open>temp_resolved\<close>.
\<close>

definition apply_2q_basis :: "string list \<Rightarrow> gate list \<Rightarrow> gate list \<Rightarrow> error + gate list" where
  "apply_2q_basis basis_2q qc_temp temp_resolved =
     (case filter (\<lambda>basis_unit. basis_unit \<in> set basis_2q)
             [''CSIGN'', ''ISWAP'', ''SQRTSWAP'', ''SQRTISWAP''] of
        basis_unit # _ \<Rightarrow> resolve_2q_basis basis_unit qc_temp temp_resolved
      | [] \<Rightarrow> Inr temp_resolved)"

text \<open>The final pass for a two-element \<open>basis_1q\<close>: the body of its loop, and the pass.\<close>

definition euler_gate :: "string list \<Rightarrow> gate \<Rightarrow> gate list" where
  "euler_gate basis_1q g =
     (if name g = ''RX'' \<and> ''RX'' \<notin> set basis_1q then
        [ Gate ''RY'' (targets g) None (Some (- (pi / 2))) (pi_label ''-'' ''/2''),
          Gate ''RZ'' (targets g) None (arg_value g) (arg_label g),
          Gate ''RY'' (targets g) None (Some (pi / 2)) (pi_label [] ''/2'') ]
      else if name g = ''RY'' \<and> ''RY'' \<notin> set basis_1q then
        [ Gate ''RZ'' (targets g) None (Some (- (pi / 2))) (pi_label ''-'' ''/2''),
          Gate ''RX'' (targets g) None (arg_value g) (arg_label g),
          Gate ''RZ'' (targets g) None (Some (pi / 2)) (pi_label [] ''/2'') ]
      else if name g = ''RZ'' \<and> ''RZ'' \<notin> set basis_1q then
        [ Gate ''RX'' (targets g) None (Some (- (pi / 2))) (pi_label ''-'' ''/2''),
          Gate ''RY'' (targets g) None (arg_value g) (arg_label g),
          Gate ''RX'' (targets g) None (Some (pi / 2)) (pi_label [] ''/2'') ]
      else [g])"

definition final_pass :: "string list \<Rightarrow> gate list \<Rightarrow> gate list" where
  "final_pass basis_1q gs =
     (if length basis_1q = 2 then concat (map (euler_gate basis_1q) gs) else gs)"

text \<open>
  \<open>resolve_two_qubit\<close> is \<open>resolve_gates\<close> up to the final pass, for a parsed request;
  \<open>resolve_gates\<close> returns the gate list of the new circuit (its \<open>N\<close>,
  \<open>reverse_states\<close> and \<open>num_cbits\<close> are copied from the input circuit).
\<close>

definition resolve_two_qubit :: "string list \<Rightarrow> gate list \<Rightarrow> error + gate list" where
  "resolve_two_qubit basis_2q gs =
     ebind (resolve_loop basis_2q gs ([], [])) (\<lambda>(qc_temp, temp_resolved).
       apply_2q_basis basis_2q qc_temp temp_resolved)"

definition resolve_gates :: "basis_request \<Rightarrow> circuit_op list \<Rightarrow> error + gate list" where
  "resolve_gates basis ops =
     (if length (filter is_measurement ops) > 0
        then Inl (NotImplementedError MeasurementsPresent)
      else
        ebind (parse_basis basis) (\<lambda>(basis_1q, basis_2q).
        ebind (resolve_two_qubit basis_2q (gates_of ops)) (\<lambda>resolved.
          Inr (final_pass basis_1q resolved))))"

section \<open>Adjacency linearizer\<close>

text \<open>
  The \<open>while i < end\<close> loop for \<open>CNOT\<close> and \<open>CSIGN\<close>; \<open>ctrl\<close> is
  \<open>gate.controls[0]\<close> and \<open>stop\<close> is the source's \<open>end\<close>.  The loop variable
  grows by one or two in every iteration, so the loop ends.
\<close>

function controlled_sweep :: "string \<Rightarrow> int \<Rightarrow> int \<Rightarrow> int \<Rightarrow> int \<Rightarrow> gate list" where
  "controlled_sweep nm ctrl start stop i =
     (if i < stop then
        (if start + stop - i - i = 1 \<and> (stop - start + 1) mod 2 = 0 then
           (if stop = ctrl
              then [Gate nm (Some [i]) (Some [i + 1]) None None]
              else [Gate nm (Some [i + 1]) (Some [i]) None None])
           @ controlled_sweep nm ctrl start stop (i + 1)
         else if start + stop - i - i = 2 \<and> (stop - start + 1) mod 2 = 1 then
           [Gate ''SWAP'' (Some [i, i + 1]) None None None]
           @ (if stop = ctrl
                then [Gate nm (Some [i + 1]) (Some [i + 2]) None None]
                else [Gate nm (Some [i + 2]) (Some [i + 1]) None None])
           @ [Gate ''SWAP'' (Some [i, i + 1]) None None None]
           @ controlled_sweep nm ctrl start stop (i + 1 + 1)
         else
           [Gate ''SWAP'' (Some [i, i + 1]) None None None,
            Gate ''SWAP'' (Some [start + stop - i - 1, start + stop - i]) None None None]
           @ controlled_sweep nm ctrl start stop (i + 1))
      else [])"
  by pat_completeness auto
termination
  by (relation "measure (\<lambda>(nm, ctrl, start, stop, i). nat (stop - i))") auto

declare controlled_sweep.simps [simp del]

function swap_sweep :: "string \<Rightarrow> int \<Rightarrow> int \<Rightarrow> int \<Rightarrow> gate list" where
  "swap_sweep nm start stop i =
     (if i < stop then
        (if start + stop - i - i = 1 \<and> (stop - start + 1) mod 2 = 0 then
           [Gate nm (Some [i, i + 1]) None None None]
           @ swap_sweep nm start stop (i + 1)
         else if start + stop - i - i = 2 \<and> (stop - start + 1) mod 2 = 1 then
           [Gate ''SWAP'' (Some [i, i + 1]) None None None,
            Gate nm (Some [i + 1, i + 2]) None None None,
            Gate ''SWAP'' (Some [i, i + 1]) None None None]
           @ swap_sweep nm start stop (i + 1 + 1)
         else
           [Gate ''SWAP'' (Some [i, i + 1]) None None None,
            Gate ''SWAP'' (Some [start + stop - i - 1, start + stop - i]) None None None]
           @ swap_sweep nm start stop (i + 1))
      else [])"
  by pat_completeness auto
termination
  by (relation "measure (\<lambda>(nm, start, stop, i). nat (stop - i))") auto

declare swap_sweep.simps [simp del]

definition swap_gates :: "string list" where
  "swap_gates = [''SWAP'', ''ISWAP'', ''SQRTISWAP'', ''SQRTSWAP'', ''BERKELEY'', ''SWAPalpha'']"

text \<open>The body of the loop over the gates of the program.\<close>

definition adjacent_gate :: "gate \<Rightarrow> error + gate list" where
  "adjacent_gate g =
     (if name g = ''CNOT'' \<or> name g = ''CSIGN'' then
        ebind (subscript (targets g) 0) (\<lambda>t0.
        ebind (subscript (controls g) 0) (\<lambda>c0.
          Inr (controlled_sweep (name g) c0 (min t0 c0) (max t0 c0) (min t0 c0))))
      else if name g \<in> set swap_gates then
        ebind (subscript (targets g) 0) (\<lambda>t0.
        ebind (subscript (targets g) 1) (\<lambda>t1.
          Inr (swap_sweep (name g) (min t0 t1) (max t0 t1) (min t0 t1))))
      else Inl (NotImplementedError (AdjacentNotDefined (name g))))"

definition adjacent_gates :: "circuit_op list \<Rightarrow> error + gate list" where
  "adjacent_gates ops =
     (if length (filter is_measurement ops) > 0
        then Inl (NotImplementedError MeasurementsPresent)
      else concat_rules adjacent_gate (gates_of ops))"

text \<open>
  A gate of the linearizer's output acts on two qubits: one target and one control, or
  two targets.  It acts on an adjacent pair when the two indices differ by exactly one.
\<close>

definition acts_on_adjacent_pair :: "gate \<Rightarrow> bool" where
  "acts_on_adjacent_pair g =
     (case (targets g, controls g) of
        (Some [t], Some [c]) \<Rightarrow> \<bar>t - c\<bar> = 1
      | (Some [a, b], None) \<Rightarrow> \<bar>a - b\<bar> = 1
      | _ \<Rightarrow> False)"

text \<open>
  A gate the linearizer accepts: a \<open>CNOT\<close> or \<open>CSIGN\<close> with a target and a control,
  or one of \<open>swap_gates\<close> with two targets.
\<close>

definition linearizable :: "gate \<Rightarrow> bool" where
  "linearizable g =
     (if name g = ''CNOT'' \<or> name g = ''CSIGN''
        then (case (targets g, controls g) of
                (Some (t # ts), Some (c # cs)) \<Rightarrow> True | _ \<Rightarrow> False)
      else name g \<in> set swap_gates \<and>
           (case targets g of Some (a # b # ts) \<Rightarrow> True | _ \<Rightarrow> False))"

text \<open>
  Modelled from the spec: a phase-only operation has no qubit operand and stands for a
  scalar factor of modulus one, \<open>exp(i * arg_value)\<close>.  \<open>emitted_phase\<close> is the
  product of the factors of the \<open>GLOBALPHASE\<close> gates of a sequence, \<open>non_phase\<close>
  the gates of the sequence that are not phase-only.
\<close>

definition emitted_phase :: "gate list \<Rightarrow> complex" where
  "emitted_phase gs =
     prod_list (map (\<lambda>g. case arg_value g of None \<Rightarrow> 1 | Some a \<Rightarrow> cis a)
                  (filter (\<lambda>g. name g = ''GLOBALPHASE'') gs))"

definition non_phase :: "gate list \<Rightarrow> gate list" where
  "non_phase gs = filter (\<lambda>g. name g \<noteq> ''GLOBALPHASE'') gs"

section \<open>Circuit simulator\<close>

text \<open>
  The linear-algebra engine (\<open>qutip\<close> and the \<open>operations\<close> module) is a parameter:
  a record of the operations the simulator calls on quantum objects of type \<open>'q\<close>.
  \<open>q_mul\<close>, \<open>q_add\<close> and \<open>q_scale\<close> are the operators \<open>*\<close> and \<open>+\<close> of
  \<open>Qobj\<close>, \<open>q_zero\<close> is the integer \<open>0\<close> that Python's \<open>sum\<close> starts from,
  \<open>num_qubits s\<close> is \<open>int(np.log2(s.shape[0]))\<close>, \<open>projector i\<close> is
  \<open>basis(2, i) * basis(2, i).dag()\<close>.
\<close>

record 'q engine =
  q_mul :: "'q \<Rightarrow> 'q \<Rightarrow> 'q"
  q_dag :: "'q \<Rightarrow> 'q"
  q_add :: "'q \<Rightarrow> 'q \<Rightarrow> 'q"
  q_scale :: "real \<Rightarrow> 'q \<Rightarrow> 'q"
  q_zero :: "'q"
  isket :: "'q \<Rightarrow> bool"
  ket2dm :: "'q \<Rightarrow> 'q"
  num_qubits :: "'q \<Rightarrow> int"
  projector :: "nat \<Rightarrow> 'q"
  expand_operator :: "'q \<Rightarrow> int \<Rightarrow> int list \<Rightarrow> 'q"
  measurement_statistics :: "'q \<Rightarrow> 'q list \<Rightarrow> 'q option list \<times> real list"
  get_all_qubits :: "gate \<Rightarrow> int list"

text \<open>
  An element of \<open>self.ops\<close>: a measurement, a tuple \<open>(operation, U)\<close> for a gate with
  classical controls, or a bare unitary.
\<close>

datatype 'q sim_op = MeasureStep measurement | ControlledStep gate 'q | UnitaryStep 'q

text \<open>The fields of a \<open>CircuitSimulator\<close> that a run reads but does not change.\<close>

record 'q simulator =
  qc_N :: int
  qc_num_cbits :: int
  qc_gates :: "circuit_op list"
  ops :: "'q sim_op list"
  mode :: string
  precompute_unitary :: bool

text \<open>
  The fields that \<open>initialize\<close> resets and the steps update.  \<open>draws\<close> is not a
  field of the class: it counts the samples taken so far from the process-wide random
  source, which \<open>initialize\<close> does not reset.
\<close>

record 'q session =
  state :: "'q option"
  probability :: real
  cbits :: "int list option"
  op_index :: nat
  measure_results :: "int list option"
  measure_ind :: nat
  draws :: nat

text \<open>Truth value of an optional list: \<open>None\<close> and the empty list are false.\<close>

fun truthy :: "'a list option \<Rightarrow> bool" where
  "truthy None = False"
| "truthy (Some xs) = (xs \<noteq> [])"

text \<open>
  Python list indexing and item assignment.  \<open>py_position n i\<close> is the position that
  the index \<open>i\<close> denotes in a list of \<open>n\<close> items: an index below zero counts from
  the end, and an index outside \<open>-n \<dots> n - 1\<close> denotes none (\<open>IndexError\<close>).
\<close>

definition py_position :: "nat \<Rightarrow> int \<Rightarrow> nat option" where
  "py_position n i =
     (if 0 \<le> i \<and> i < int n then Some (nat i)
      else if i < 0 \<and> - int n \<le> i then Some (nat (int n + i))
      else None)"

definition py_index :: "'a list \<Rightarrow> int \<Rightarrow> error + 'a" where
  "py_index xs i =
     (case py_position (length xs) i of None \<Rightarrow> Inl IndexError | Some k \<Rightarrow> Inr (xs ! k))"

definition py_store :: "'a list \<Rightarrow> int \<Rightarrow> 'a \<Rightarrow> error + 'a list" where
  "py_store xs i v =
     (case py_position (length xs) i of None \<Rightarrow> Inl IndexError | Some k \<Rightarrow> Inr (xs[k := v]))"

definition initialize ::
  "'q engine \<Rightarrow> 'q simulator \<Rightarrow> nat \<Rightarrow> 'q option \<Rightarrow> int list option \<Rightarrow> int list option
     \<Rightarrow> 'q session" where
  "initialize eng sim d st cb mr =
     \<lparr> state =
         (case st of
            None \<Rightarrow> None
          | Some s \<Rightarrow>
              if mode sim = ''density_matrix_simulator'' \<and> isket eng s
                then Some (ket2dm eng s) else Some s),
       probability = 1,
       cbits =
         (if truthy cb \<and> int (length (the cb)) = qc_num_cbits sim then cb
          else if qc_num_cbits sim > 0 then Some (replicate (nat (qc_num_cbits sim)) 0)
          else None),
       op_index = 0,
       measure_results = mr,
       measure_ind = 0,
       draws = d \<rparr>"

text \<open>\<open>U * None\<close> raises \<open>TypeError\<close>.\<close>

definition evolve_state ::
  "'q engine \<Rightarrow> 'q simulator \<Rightarrow> 'q \<Rightarrow> 'q session \<Rightarrow> error + 'q session" where
  "evolve_state eng sim U s =
     (if mode sim = ''state_vector_simulator'' then
        (case state s of
           None \<Rightarrow> Inl TypeError
         | Some st \<Rightarrow> Inr (s\<lparr>state := Some (q_mul eng U st)\<rparr>))
      else if mode sim = ''density_matrix_simulator'' then
        (case state s of
           None \<Rightarrow> Inl TypeError
         | Some st \<Rightarrow> Inr (s\<lparr>state := Some (q_mul eng (q_mul eng U st) (q_dag eng U))\<rparr>))
      else Inl (NotImplementedError (ModeNotAvailable (mode sim))))"

text \<open>\<open>Measurement.measurement_comp_basis\<close>; \<open>state.shape\<close> of \<open>None\<close> raises.\<close>

definition measurement_comp_basis ::
  "'q engine \<Rightarrow> measurement \<Rightarrow> 'q option \<Rightarrow> error + 'q option list \<times> real list" where
  "measurement_comp_basis eng m st =
     (case st of
        None \<Rightarrow> Inl AttributeError
      | Some s \<Rightarrow>
          ebind (subscript (m_targets m) 0) (\<lambda>target.
            if target < num_qubits eng s then
              Inr (measurement_statistics eng s
                     (map (\<lambda>op. expand_operator eng op (num_qubits eng s) (the (m_targets m)))
                        [projector eng 0, projector eng 1]))
            else Inl (ValueError TargetNotValid)))"

text \<open>
  The outcome of a measurement in \<open>state_vector_simulator\<close> mode: the next forced
  outcome when \<open>measure_results\<close> is true as a condition, otherwise a sample from the
  random source \<open>rng\<close> (\<open>np.random.choice([0, 1], p)\<close>; \<open>rng k p\<close> is the sample it
  returns on its \<open>k\<close>-th call) on the renormalised probabilities; probabilities that
  sum to zero cannot be renormalised, and the model names that failure
  \<open>ZeroDivisionError\<close>.  The result is the outcome, the probabilities to index and the
  updated session.
\<close>

definition choose_outcome ::
  "(nat \<Rightarrow> real list \<Rightarrow> int) \<Rightarrow> real list \<Rightarrow> 'q session
     \<Rightarrow> error + int \<times> real list \<times> 'q session" where
  "choose_outcome rng probs s =
     (if truthy (measure_results s) then
        (if measure_ind s < length (the (measure_results s))
           then Inr (the (measure_results s) ! measure_ind s, probs,
                     s\<lparr>measure_ind := measure_ind s + 1\<rparr>)
           else Inl IndexError)
      else if probs \<noteq> [] \<and> sum_list probs = 0 then Inl ZeroDivisionError
      else
        (let probs' = map (\<lambda>p. p / sum_list probs) probs
         in Inr (rng (draws s) probs', probs', s\<lparr>draws := draws s + 1\<rparr>)))"

text \<open>The sum of \<open>density_matrix_simulator\<close> mode, as Python's \<open>sum\<close> folds it.\<close>

definition weighted_sum :: "'q engine \<Rightarrow> ('q \<times> real) list \<Rightarrow> 'q" where
  "weighted_sum eng sps =
     foldl (\<lambda>acc (st, p). q_add eng acc (q_scale eng p st)) (q_zero eng) sps"

definition apply_measurement ::
  "'q engine \<Rightarrow> (nat \<Rightarrow> real list \<Rightarrow> int) \<Rightarrow> 'q simulator \<Rightarrow> measurement \<Rightarrow> 'q session
     \<Rightarrow> error + 'q session" where
  "apply_measurement eng rng sim operation s =
     ebind (measurement_comp_basis eng operation (state s)) (\<lambda>(states, probabilities).
       if mode sim = ''state_vector_simulator'' then
         ebind (choose_outcome rng probabilities s) (\<lambda>(i, probs, s1).
         ebind (py_index probs i) (\<lambda>p.
         ebind (py_index states i) (\<lambda>st.
           let s2 = s1\<lparr>probability := probability s1 * p, state := st\<rparr>
           in case classical_store operation of
                None \<Rightarrow> Inr s2
              | Some store \<Rightarrow>
                  (case cbits s2 of
                     None \<Rightarrow> Inl TypeError
                   | Some cs \<Rightarrow>
                       ebind (py_store cs store i) (\<lambda>cs'. Inr (s2\<lparr>cbits := Some cs'\<rparr>))))))
       else if mode sim = ''density_matrix_simulator'' then
         Inr (s\<lparr>state := Some (weighted_sum eng
                (zip (map the (filter (\<lambda>x. x \<noteq> None) states))
                     (filter (\<lambda>x. x \<noteq> 0) probabilities)))\<rparr>)
       else Inl (NotImplementedError (ModeNotAvailable (mode sim))))"

text \<open>
  \<open>[self.cbits[i] for i in operation.classical_controls]\<close>: the whole list is built
  before \<open>all\<close> looks at it.
\<close>

fun read_cbits :: "int list option \<Rightarrow> int list \<Rightarrow> error + int list" where
  "read_cbits cb [] = Inr []"
| "read_cbits None (i # is) = Inl TypeError"
| "read_cbits (Some cs) (i # is) =
     ebind (py_index cs i) (\<lambda>b. ebind (read_cbits (Some cs) is) (\<lambda>bs. Inr (b # bs)))"

definition control_bits :: "gate \<Rightarrow> int list option \<Rightarrow> error + int list" where
  "control_bits operation cb =
     (case classical_controls operation of
        None \<Rightarrow> Inl TypeError
      | Some idxs \<Rightarrow> read_cbits cb idxs)"

definition step ::
  "'q engine \<Rightarrow> (nat \<Rightarrow> real list \<Rightarrow> int) \<Rightarrow> 'q simulator \<Rightarrow> 'q session
     \<Rightarrow> error + 'q session" where
  "step eng rng sim s =
     (if op_index s < length (ops sim) then
        ebind
          (case ops sim ! op_index s of
             MeasureStep m \<Rightarrow> apply_measurement eng rng sim m s
           | ControlledStep operation U \<Rightarrow>
               ebind (control_bits operation (cbits s)) (\<lambda>bits.
                 if list_all (\<lambda>b. b \<noteq> 0) bits then
                   evolve_state eng sim
                     (if precompute_unitary sim
                        then expand_operator eng U (qc_N sim) (get_all_qubits eng operation)
                        else U) s
                 else Inr s)
           | UnitaryStep U \<Rightarrow> evolve_state eng sim U s)
          (\<lambda>s'. Inr (s'\<lparr>op_index := op_index s' + 1\<rparr>))
      else Inl IndexError)"

text \<open>
  The loop of \<open>run\<close>: at most \<open>n\<close> more steps, stopping early when a step returns
  \<open>None\<close> as the state.
\<close>

fun run_steps ::
  "'q engine \<Rightarrow> (nat \<Rightarrow> real list \<Rightarrow> int) \<Rightarrow> 'q simulator \<Rightarrow> nat \<Rightarrow> 'q session
     \<Rightarrow> error + 'q session" where
  "run_steps eng rng sim 0 s = Inr s"
| "run_steps eng rng sim (Suc n) s =
     ebind (step eng rng sim s) (\<lambda>s'.
       if state s' = None then Inr s' else run_steps eng rng sim n s')"

text \<open>
  \<open>run_session\<close> is the effect of \<open>run\<close> on the simulator object, started when the
  random source has been sampled \<open>d\<close> times.
\<close>

definition run_session ::
  "'q engine \<Rightarrow> (nat \<Rightarrow> real list \<Rightarrow> int) \<Rightarrow> 'q simulator \<Rightarrow> nat \<Rightarrow> 'q option
     \<Rightarrow> int list option \<Rightarrow> int list option \<Rightarrow> error + 'q session" where
  "run_session eng rng sim d st cb mr =
     run_steps eng rng sim (length (ops sim)) (initialize eng sim d st cb mr)"

text \<open>\<open>redraw d\<close> sets the count of samples taken from the random source.\<close>

definition redraw :: "nat \<Rightarrow> 'q session \<Rightarrow> 'q session" where
  "redraw d s = s\<lparr>draws := d\<rparr>"

text \<open>
  A \<open>CircuitResult\<close>.  \<open>result_cbits\<close> is \<open>None\<close> when the constructor does not set
  the attribute \<open>cbits\<close>.
\<close>

record 'q circuit_result =
  final_states :: "'q option list"
  probabilities :: "real list"
  result_cbits :: "int list option list option"

text \<open>The constructor for one state (a \<open>Qobj\<close> or \<open>None\<close>).\<close>

definition CircuitResult_single ::
  "'q option \<Rightarrow> real \<Rightarrow> int list option \<Rightarrow> 'q circuit_result" where
  "CircuitResult_single st p cb =
     \<lparr> final_states = [st], probabilities = [p],
       result_cbits = (if truthy cb then Some [cb] else None) \<rparr>"



definition run ::
  "'q engine \<Rightarrow> (nat \<Rightarrow> real list \<Rightarrow> int) \<Rightarrow> 'q simulator \<Rightarrow> nat \<Rightarrow> 'q option
     \<Rightarrow> int list option \<Rightarrow> int list option \<Rightarrow> error + 'q circuit_result" where
  "run eng rng sim d st cb mr =
     ebind (run_session eng rng sim d st cb mr) (\<lambda>s.
       Inr (CircuitResult_single (state s) (probability s) (cbits s)))"









section \<open>Statements of the specification about the simulator\<close>

text \<open>
  Modelled from the spec: the classical-control predicate of a gate, the logical AND
  over the required bit values of its classical bits.  The required combined value is
  an integer whose lowest bit belongs to the first classical control (docstring of
  \<open>add_gate\<close>); it defaults to all ones.  \<open>bits\<close> are the values of the referenced
  classical bits, in the order of \<open>classical_controls\<close>.
\<close>

definition required_value :: "gate \<Rightarrow> int option" where
  "required_value g =
     (case classical_control_value g of Some v \<Rightarrow> Some v | None \<Rightarrow> control_value g)"

definition required_bit :: "gate \<Rightarrow> nat \<Rightarrow> int" where
  "required_bit g k = (case required_value g of None \<Rightarrow> 1 | Some v \<Rightarrow> (v div 2 ^ k) mod 2)"

definition classical_control_predicate :: "gate \<Rightarrow> int list \<Rightarrow> bool" where
  "classical_control_predicate g bits =
     list_all (\<lambda>(k, b). b = required_bit g k) (zip [0 ..< length bits] bits)"

text \<open>
  Following the specification's words: the candidate collapsed states with non-zero
  probability, each with its probability.
\<close>

fun nonzero_candidates :: "'q option list \<Rightarrow> real list \<Rightarrow> ('q \<times> real) list" where
  "nonzero_candidates (Some st # sts) (p # ps) =
     (if p \<noteq> 0 then (st, p) # nonzero_candidates sts ps else nonzero_candidates sts ps)"
| "nonzero_candidates (None # sts) (p # ps) = nonzero_candidates sts ps"
| "nonzero_candidates _ _ = []"

section \<open>A one-qubit engine for concrete runs\<close>

text \<open>
  Quantum objects of one qubit with real entries: a ket with two amplitudes, or a
  two-by-two operator given by its rows.  The engine works as \<open>qutip\<close> does: a measurement
  operator \<open>op\<close> collapses a ket \<open>psi\<close> to \<open>op * psi\<close> divided by its norm, with
  the squared norm as probability, and a density operator \<open>rho\<close> to
  \<open>op * rho * op.dag()\<close> divided by its trace, with the trace as probability; the
  collapsed state of an outcome of probability zero is \<open>None\<close>.
\<close>

datatype qobj1 = Ket real real | Oper real real real real

fun mul1 :: "qobj1 \<Rightarrow> qobj1 \<Rightarrow> qobj1" where
  "mul1 (Oper a b c d) (Ket x y) = Ket (a * x + b * y) (c * x + d * y)"
| "mul1 (Oper a b c d) (Oper e f g h) =
     Oper (a * e + b * g) (a * f + b * h) (c * e + d * g) (c * f + d * h)"
| "mul1 (Ket x y) q = Ket x y"

fun dag1 :: "qobj1 \<Rightarrow> qobj1" where
  "dag1 (Oper a b c d) = Oper a c b d"
| "dag1 (Ket x y) = Ket x y"

fun add1 :: "qobj1 \<Rightarrow> qobj1 \<Rightarrow> qobj1" where
  "add1 (Oper a b c d) (Oper e f g h) = Oper (a + e) (b + f) (c + g) (d + h)"
| "add1 (Ket x y) (Ket u v) = Ket (x + u) (y + v)"
| "add1 p q = q"

fun scale1 :: "real \<Rightarrow> qobj1 \<Rightarrow> qobj1" where
  "scale1 r (Oper a b c d) = Oper (r * a) (r * b) (r * c) (r * d)"
| "scale1 r (Ket x y) = Ket (r * x) (r * y)"

fun isket1 :: "qobj1 \<Rightarrow> bool" where
  "isket1 (Ket x y) = True"
| "isket1 (Oper a b c d) = False"

fun ket2dm1 :: "qobj1 \<Rightarrow> qobj1" where
  "ket2dm1 (Ket x y) = Oper (x * x) (x * y) (y * x) (y * y)"
| "ket2dm1 (Oper a b c d) = Oper a b c d"

fun projector1 :: "nat \<Rightarrow> qobj1" where
  "projector1 0 = Oper 1 0 0 0"
| "projector1 (Suc n) = Oper 0 0 0 1"

fun weight1 :: "qobj1 \<Rightarrow> real" where
  "weight1 (Ket x y) = x * x + y * y"
| "weight1 (Oper a b c d) = a + d"

fun collapse1 :: "qobj1 \<Rightarrow> qobj1 \<Rightarrow> qobj1 option" where
  "collapse1 (Ket x y) op =
     (if weight1 (mul1 op (Ket x y)) \<noteq> 0
        then Some (scale1 (1 / sqrt (weight1 (mul1 op (Ket x y)))) (mul1 op (Ket x y)))
        else None)"
| "collapse1 (Oper a b c d) op =
     (if weight1 (mul1 (mul1 op (Oper a b c d)) (dag1 op)) \<noteq> 0
        then Some (scale1 (1 / weight1 (mul1 (mul1 op (Oper a b c d)) (dag1 op)))
                     (mul1 (mul1 op (Oper a b c d)) (dag1 op)))
        else None)"

fun probability1 :: "qobj1 \<Rightarrow> qobj1 \<Rightarrow> real" where
  "probability1 (Ket x y) op = weight1 (mul1 op (Ket x y))"
| "probability1 (Oper a b c d) op = weight1 (mul1 (mul1 op (Oper a b c d)) (dag1 op))"

definition qubit_engine :: "qobj1 engine" where
  "qubit_engine =
     \<lparr> q_mul = mul1, q_dag = dag1, q_add = add1, q_scale = scale1, q_zero = Oper 0 0 0 0,
       isket = isket1, ket2dm = ket2dm1, num_qubits = (\<lambda>s. 1), projector = projector1,
       expand_operator = (\<lambda>op n ts. op),
       measurement_statistics = (\<lambda>s mops. (map (collapse1 s) mops, map (probability1 s) mops)),
       get_all_qubits =
         (\<lambda>g. (case controls g of None \<Rightarrow> [] | Some cs \<Rightarrow> cs)
              @ (case targets g of None \<Rightarrow> [] | Some ts \<Rightarrow> ts)) \<rparr>"

text \<open>Two random sources: one always samples 0, the other always 1.\<close>

definition always0 :: "nat \<Rightarrow> real list \<Rightarrow> int" where
  "always0 k p = 0"

definition always1 :: "nat \<Rightarrow> real list \<Rightarrow> int" where
  "always1 k p = 1"

text \<open>A one-qubit circuit that measures its qubit once, without classical store.\<close>

definition measure_once :: "string \<Rightarrow> qobj1 simulator" where
  "measure_once md =
     \<lparr> qc_N = 1, qc_num_cbits = 0,
       qc_gates = [MeasurementOp (Measurement ''M0'' (Some [0]) None)],
       ops = [MeasureStep (Measurement ''M0'' (Some [0]) None)],
       mode = md, precompute_unitary = False \<rparr>"

text \<open>
  A one-qubit circuit with one classical bit, whose only gate is an \<open>X\<close> controlled on
  classical bit 0 with required value 0.
\<close>

definition x_if_zero :: gate where
  "x_if_zero =
     \<lparr> name = ''X'', targets = Some [0], controls = None, arg_value = None,
       arg_label = None, classical_controls = Some [0], control_value = Some 0,
       classical_control_value = Some 0 \<rparr>"

definition controlled_x :: "qobj1 simulator" where
  "controlled_x =
     \<lparr> qc_N = 1, qc_num_cbits = 1, qc_gates = [GateOp x_if_zero],
       ops = [ControlledStep x_if_zero (Oper 0 1 1 0)],
       mode = ''state_vector_simulator'', precompute_unitary = False \<rparr>"

text \<open>
  A one-qubit circuit with one classical bit: a measurement stored in classical bit 0,
  then an \<open>X\<close> gate.
\<close>

definition measure_then_x :: "qobj1 simulator" where
  "measure_then_x =
     \<lparr> qc_N = 1, qc_num_cbits = 1,
       qc_gates = [MeasurementOp (Measurement ''M0'' (Some [0]) (Some 0)),
                   GateOp (Gate ''X'' (Some [0]) None None None)],
       ops = [MeasureStep (Measurement ''M0'' (Some [0]) (Some 0)),
              UnitaryStep (Oper 0 1 1 0)],
       mode = ''state_vector_simulator'', precompute_unitary = False \<rparr>"

section \<open>Basic facts\<close>

lemma Gate_sel [simp]:
  "name (Gate n t c a l) = n"
  "targets (Gate n t c a l) = t"
  "controls (Gate n t c a l) = c"
  "arg_value (Gate n t c a l) = a"
  "arg_label (Gate n t c a l) = l"
  "classical_controls (Gate n t c a l) = None"
  "control_value (Gate n t c a l) = None"
  "classical_control_value (Gate n t c a l) = None"
  by (simp_all add: Gate_def)

lemma ebind_simps [simp]:
  "ebind (Inl e) f = Inl e"
  "ebind (Inr x) f = f x"
  by (simp_all add: ebind_def)

lemma ebind_Inr: "ebind m f = Inr y \<Longrightarrow> \<exists>x. m = Inr x \<and> f x = Inr y"
  by (cases m) simp_all

lemma concat_rules_all:
  "concat_rules f gs = Inr out \<Longrightarrow> h \<in> set out \<Longrightarrow>
   (\<And>g o' h'. f g = Inr o' \<Longrightarrow> h' \<in> set o' \<Longrightarrow> P h') \<Longrightarrow> P h"
proof (induction gs arbitrary: out)
  case Nil
  then show ?case by simp
next
  case (Cons g gs)
  from Cons.prems(1) obtain o1 rest where
    o1: "f g = Inr o1" and rest: "concat_rules f gs = Inr rest" and out: "out = o1 @ rest"
    by (auto dest!: ebind_Inr)
  from Cons.prems(2) out have "h \<in> set o1 \<or> h \<in> set rest" by simp
  then show ?case
  proof
    assume "h \<in> set o1"
    with o1 show ?thesis by (rule Cons.prems(3))
  next
    assume "h \<in> set rest"
    with rest show ?thesis by (rule Cons.IH) (rule Cons.prems(3))
  qed
qed

lemma concat_rules_total:
  "list_all (\<lambda>g. \<exists>out. f g = Inr out) gs \<Longrightarrow> \<exists>out. concat_rules f gs = Inr out"
  by (induction gs) auto

section \<open>Properties of the adjacency linearizer\<close>

text \<open>The equations of the two loops, one per branch, for evaluation on numerals.\<close>

lemma controlled_sweep_code:
  "\<not> i < stop \<Longrightarrow> controlled_sweep nm ctrl start stop i = []"
  "i < stop \<Longrightarrow> start + stop - i - i = 1 \<and> (stop - start + 1) mod 2 = 0 \<Longrightarrow>
     controlled_sweep nm ctrl start stop i =
       (if stop = ctrl
          then [Gate nm (Some [i]) (Some [i + 1]) None None]
          else [Gate nm (Some [i + 1]) (Some [i]) None None])
       @ controlled_sweep nm ctrl start stop (i + 1)"
  "i < stop \<Longrightarrow> \<not> (start + stop - i - i = 1 \<and> (stop - start + 1) mod 2 = 0) \<Longrightarrow>
     start + stop - i - i = 2 \<and> (stop - start + 1) mod 2 = 1 \<Longrightarrow>
     controlled_sweep nm ctrl start stop i =
       [Gate ''SWAP'' (Some [i, i + 1]) None None None]
       @ (if stop = ctrl
            then [Gate nm (Some [i + 1]) (Some [i + 2]) None None]
            else [Gate nm (Some [i + 2]) (Some [i + 1]) None None])
       @ [Gate ''SWAP'' (Some [i, i + 1]) None None None]
       @ controlled_sweep nm ctrl start stop (i + 1 + 1)"
  "i < stop \<Longrightarrow> \<not> (start + stop - i - i = 1 \<and> (stop - start + 1) mod 2 = 0) \<Longrightarrow>
     \<not> (start + stop - i - i = 2 \<and> (stop - start + 1) mod 2 = 1) \<Longrightarrow>
     controlled_sweep nm ctrl start stop i =
       [Gate ''SWAP'' (Some [i, i + 1]) None None None,
        Gate ''SWAP'' (Some [start + stop - i - 1, start + stop - i]) None None None]
       @ controlled_sweep nm ctrl start stop (i + 1)"
     apply (subst controlled_sweep.simps, simp)
    apply (subst controlled_sweep.simps, simp)
   apply (subst controlled_sweep.simps, simp)
  apply (subst controlled_sweep.simps, auto)
  done

lemma swap_sweep_code:
  "\<not> i < stop \<Longrightarrow> swap_sweep nm start stop i = []"
  "i < stop \<Longrightarrow> start + stop - i - i = 1 \<and> (stop - start + 1) mod 2 = 0 \<Longrightarrow>
     swap_sweep nm start stop i =
       [Gate nm (Some [i, i + 1]) None None None] @ swap_sweep nm start stop (i + 1)"
  "i < stop \<Longrightarrow> \<not> (start + stop - i - i = 1 \<and> (stop - start + 1) mod 2 = 0) \<Longrightarrow>
     start + stop - i - i = 2 \<and> (stop - start + 1) mod 2 = 1 \<Longrightarrow>
     swap_sweep nm start stop i =
       [Gate ''SWAP'' (Some [i, i + 1]) None None None,
        Gate nm (Some [i + 1, i + 2]) None None None,
        Gate ''SWAP'' (Some [i, i + 1]) None None None]
       @ swap_sweep nm start stop (i + 1 + 1)"
  "i < stop \<Longrightarrow> \<not> (start + stop - i - i = 1 \<and> (stop - start + 1) mod 2 = 0) \<Longrightarrow>
     \<not> (start + stop - i - i = 2 \<and> (stop - start + 1) mod 2 = 1) \<Longrightarrow>
     swap_sweep nm start stop i =
       [Gate ''SWAP'' (Some [i, i + 1]) None None None,
        Gate ''SWAP'' (Some [start + stop - i - 1, start + stop - i]) None None None]
       @ swap_sweep nm start stop (i + 1)"
     apply (subst swap_sweep.simps, simp)
    apply (subst swap_sweep.simps, simp)
   apply (subst swap_sweep.simps, simp)
  apply (subst swap_sweep.simps, auto)
  done

lemma adjacent_pair_Gate [simp]:
  "acts_on_adjacent_pair (Gate nm (Some [t]) (Some [c]) a l) = (\<bar>t - c\<bar> = 1)"
  "acts_on_adjacent_pair (Gate nm (Some [x, y]) None a l) = (\<bar>x - y\<bar> = 1)"
  by (simp_all add: acts_on_adjacent_pair_def)

lemma controlled_sweep_adjacent:
  "g \<in> set (controlled_sweep nm ctrl start stop i) \<Longrightarrow> acts_on_adjacent_pair g"
proof (induction nm ctrl start stop i rule: controlled_sweep.induct)
  case (1 nm ctrl start stop i)
  show ?case
    using "1.prems" "1.IH"
    by (subst (asm) controlled_sweep.simps) (auto split: if_splits)
qed

lemma swap_sweep_adjacent:
  "g \<in> set (swap_sweep nm start stop i) \<Longrightarrow> acts_on_adjacent_pair g"
proof (induction nm start stop i rule: swap_sweep.induct)
  case (1 nm start stop i)
  show ?case
    using "1.prems" "1.IH"
    by (subst (asm) swap_sweep.simps) (auto split: if_splits)
qed

lemma adjacent_gate_adjacent:
  assumes "adjacent_gate g = Inr out" and "h \<in> set out"
  shows "acts_on_adjacent_pair h"
proof (cases "name g = ''CNOT'' \<or> name g = ''CSIGN''")
  case True
  with assms(1) obtain t0 c0 where
    "out = controlled_sweep (name g) c0 (min t0 c0) (max t0 c0) (min t0 c0)"
    by (auto simp: adjacent_gate_def dest!: ebind_Inr)
  with assms(2) show ?thesis by (simp add: controlled_sweep_adjacent)
next
  case False
  with assms(1) obtain t0 t1 where
    "out = swap_sweep (name g) (min t0 t1) (max t0 t1) (min t0 t1)"
    by (auto simp: adjacent_gate_def split: if_splits dest!: ebind_Inr)
  with assms(2) show ?thesis by (simp add: swap_sweep_adjacent)
qed

text \<open>The linearizer accepts every measurement-free program of gates it supports.\<close>

lemma adjacent_gate_accepts:
  "linearizable g \<Longrightarrow> \<exists>out. adjacent_gate g = Inr out"
  by (auto simp: linearizable_def adjacent_gate_def
        split: if_splits option.splits list.splits)

lemma adjacent_gates_accepts:
  assumes "filter is_measurement prog = []" and "list_all linearizable (gates_of prog)"
  shows "\<exists>out. adjacent_gates prog = Inr out"
proof -
  from assms(2) have "list_all (\<lambda>g. \<exists>out. adjacent_gate g = Inr out) (gates_of prog)"
    by (simp add: list_all_iff adjacent_gate_accepts)
  then have "\<exists>out. concat_rules adjacent_gate (gates_of prog) = Inr out"
    by (rule concat_rules_total)
  with assms(1) show ?thesis by (simp add: adjacent_gates_def)
qed

text \<open>
  Claim C2.  Whenever \<open>adjacent_gates\<close> accepts a program and returns a circuit, every
  gate of the returned circuit is a two-qubit gate whose two qubit indices differ by
  exactly one.
\<close>

theorem adjacent_gates_adjacency:
  assumes "adjacent_gates prog = Inr out"
  shows "\<forall>g \<in> set out. acts_on_adjacent_pair g"
proof
  fix h assume h: "h \<in> set out"
  from assms have "concat_rules adjacent_gate (gates_of prog) = Inr out"
    by (simp add: adjacent_gates_def split: if_splits)
  from this h show "acts_on_adjacent_pair h"
    by (rule concat_rules_all) (rule adjacent_gate_adjacent)
qed

theorem adjacent_gates_adjacency_witness:
  "adjacent_gates [GateOp (Gate ''CNOT'' (Some [3]) (Some [0]) None None),
                   GateOp (Gate ''ISWAP'' (Some [5, 0]) None None None)]
     = Inr [Gate ''SWAP'' (Some [0, 1]) None None None,
            Gate ''SWAP'' (Some [2, 3]) None None None,
            Gate ''CNOT'' (Some [2]) (Some [1]) None None,
            Gate ''SWAP'' (Some [2, 3]) None None None,
            Gate ''SWAP'' (Some [0, 1]) None None None,
            Gate ''SWAP'' (Some [0, 1]) None None None,
            Gate ''SWAP'' (Some [4, 5]) None None None,
            Gate ''SWAP'' (Some [1, 2]) None None None,
            Gate ''SWAP'' (Some [3, 4]) None None None,
            Gate ''ISWAP'' (Some [2, 3]) None None None,
            Gate ''SWAP'' (Some [3, 4]) None None None,
            Gate ''SWAP'' (Some [1, 2]) None None None,
            Gate ''SWAP'' (Some [4, 5]) None None None,
            Gate ''SWAP'' (Some [0, 1]) None None None]
   \<and> list_all acts_on_adjacent_pair
        [Gate ''SWAP'' (Some [0, 1]) None None None,
         Gate ''SWAP'' (Some [2, 3]) None None None,
         Gate ''CNOT'' (Some [2]) (Some [1]) None None,
         Gate ''SWAP'' (Some [2, 3]) None None None,
         Gate ''SWAP'' (Some [0, 1]) None None None,
         Gate ''SWAP'' (Some [0, 1]) None None None,
         Gate ''SWAP'' (Some [4, 5]) None None None,
         Gate ''SWAP'' (Some [1, 2]) None None None,
         Gate ''SWAP'' (Some [3, 4]) None None None,
         Gate ''ISWAP'' (Some [2, 3]) None None None,
         Gate ''SWAP'' (Some [3, 4]) None None None,
         Gate ''SWAP'' (Some [1, 2]) None None None,
         Gate ''SWAP'' (Some [4, 5]) None None None,
         Gate ''SWAP'' (Some [0, 1]) None None None]"
proof -
  have run: "adjacent_gates [GateOp (Gate ''CNOT'' (Some [3]) (Some [0]) None None),
                   GateOp (Gate ''ISWAP'' (Some [5, 0]) None None None)]
     = Inr [Gate ''SWAP'' (Some [0, 1]) None None None,
            Gate ''SWAP'' (Some [2, 3]) None None None,
            Gate ''CNOT'' (Some [2]) (Some [1]) None None,
            Gate ''SWAP'' (Some [2, 3]) None None None,
            Gate ''SWAP'' (Some [0, 1]) None None None,
            Gate ''SWAP'' (Some [0, 1]) None None None,
            Gate ''SWAP'' (Some [4, 5]) None None None,
            Gate ''SWAP'' (Some [1, 2]) None None None,
            Gate ''SWAP'' (Some [3, 4]) None None None,
            Gate ''ISWAP'' (Some [2, 3]) None None None,
            Gate ''SWAP'' (Some [3, 4]) None None None,
            Gate ''SWAP'' (Some [1, 2]) None None None,
            Gate ''SWAP'' (Some [4, 5]) None None None,
            Gate ''SWAP'' (Some [0, 1]) None None None]"
    by (simp add: adjacent_gates_def adjacent_gate_def swap_gates_def
          controlled_sweep_code swap_sweep_code)
  from adjacent_gates_adjacency [OF run] show ?thesis
    unfolding list_all_iff using run by blast
qed

section \<open>Properties of the universal basis resolver\<close>

lemma basis_tables_disjoint: "tok \<in> set basis_2q_valid \<Longrightarrow> tok \<notin> set basis_1q_valid"
  by (auto simp: basis_1q_valid_def basis_2q_valid_def)

lemma split_basis_valid:
  "list_all (\<lambda>t. t \<in> set basis_1q_valid \<or> t \<in> set basis_2q_valid) toks \<Longrightarrow>
   split_basis toks (b1, b2) =
     Inr (b1 @ filter (\<lambda>t. t \<in> set basis_1q_valid) toks,
          b2 @ filter (\<lambda>t. t \<in> set basis_2q_valid) toks)"
proof (induction toks arbitrary: b1 b2)
  case Nil
  then show ?case by simp
next
  case (Cons tok toks)
  then show ?case
    by (cases "tok \<in> set basis_2q_valid") (auto dest: basis_tables_disjoint)
qed

lemma split_basis_invalid:
  "\<not> list_all (\<lambda>t. t \<in> set basis_1q_valid \<or> t \<in> set basis_2q_valid) toks \<Longrightarrow>
   \<exists>tok. split_basis toks (b1, b2) = Inl (NotImplementedError (NotValidBasisGate tok))"
proof (induction toks arbitrary: b1 b2)
  case Nil
  then show ?case by simp
next
  case (Cons tok toks)
  show ?case
  proof (cases "tok \<in> set basis_1q_valid \<or> tok \<in> set basis_2q_valid")
    case True
    with Cons.prems have "\<not> list_all (\<lambda>t. t \<in> set basis_1q_valid \<or> t \<in> set basis_2q_valid) toks"
      by simp
    from Cons.IH [OF this] True show ?thesis by auto
  next
    case False
    then show ?thesis by simp
  qed
qed

lemma resolve_gates_unitary:
  "filter is_measurement prog = [] \<Longrightarrow>
   resolve_gates basis prog =
     ebind (parse_basis basis) (\<lambda>(basis_1q, basis_2q).
     ebind (resolve_two_qubit basis_2q (gates_of prog)) (\<lambda>resolved.
       Inr (final_pass basis_1q resolved)))"
  by (simp add: resolve_gates_def)

text \<open>
  Claim C7.  A program that holds a measurement is rejected by both decomposition passes
  with the error of the measurement check, whatever the basis request; the result is the
  error, so no gate is returned.
\<close>

theorem decomposition_rejects_measurements:
  assumes "list_ex is_measurement prog"
  shows "resolve_gates basis prog = Inl (NotImplementedError MeasurementsPresent)
       \<and> adjacent_gates prog = Inl (NotImplementedError MeasurementsPresent)
       \<and> is_SequencingError (NotImplementedError MeasurementsPresent)"
proof -
  from assms have "filter is_measurement prog \<noteq> []"
    by (simp add: list_ex_iff filter_empty_conv)
  then show ?thesis
    by (simp add: resolve_gates_def adjacent_gates_def)
qed

theorem decomposition_rejects_measurements_witness:
  "resolve_gates (BasisName ''NOSUCHBASIS'')
       [GateOp (Gate ''SNOT'' (Some [0]) None None None),
        MeasurementOp (Measurement ''M0'' (Some [0]) (Some 0))]
     = Inl (NotImplementedError MeasurementsPresent)
   \<and> adjacent_gates
       [GateOp (Gate ''SNOT'' (Some [0]) None None None),
        MeasurementOp (Measurement ''M0'' (Some [0]) (Some 0))]
     = Inl (NotImplementedError MeasurementsPresent)
   \<and> is_SequencingError (NotImplementedError MeasurementsPresent)"
proof -
  have "list_ex is_measurement
          [GateOp (Gate ''SNOT'' (Some [0]) None None None),
           MeasurementOp (Measurement ''M0'' (Some [0]) (Some 0))]"
    by simp
  then show ?thesis by (rule decomposition_rejects_measurements)
qed

text \<open>
  Claim C8.  For a measurement-free program and a list-shaped basis request:
  the request is rejected with an InvalidBasisError when exactly one of its tokens is a
  one-qubit generator or when some token is in neither table; and when all tokens are
  recognised and none is a one-qubit generator, the request is accepted with the
  one-qubit basis \<open>RX, RY, RZ\<close>, so that it resolves every program as the request that
  names the three rotations does, and resolves the empty program to the empty circuit.
\<close>

theorem resolve_gates_basis_validation:
  assumes "filter is_measurement prog = []"
  shows "((length (filter (\<lambda>t. t \<in> set basis_1q_valid) toks) = 1
            \<or> (\<exists>t \<in> set toks. t \<notin> set basis_1q_valid \<and> t \<notin> set basis_2q_valid))
          \<longrightarrow> (\<exists>e. resolve_gates (BasisList toks) prog = Inl e \<and> is_InvalidBasisError e))
       \<and> (list_all (\<lambda>t. t \<in> set basis_1q_valid \<or> t \<in> set basis_2q_valid) toks
            \<and> filter (\<lambda>t. t \<in> set basis_1q_valid) toks = []
          \<longrightarrow> parse_basis (BasisList toks)
                = Inr ([''RX'', ''RY'', ''RZ''], filter (\<lambda>t. t \<in> set basis_2q_valid) toks)
              \<and> resolve_gates (BasisList toks) prog
                = resolve_gates (BasisList (toks @ [''RX'', ''RY'', ''RZ''])) prog
              \<and> resolve_gates (BasisList toks) [] = Inr [])"
proof (intro conjI impI)
  assume bad: "length (filter (\<lambda>t. t \<in> set basis_1q_valid) toks) = 1
            \<or> (\<exists>t \<in> set toks. t \<notin> set basis_1q_valid \<and> t \<notin> set basis_2q_valid)"
  show "\<exists>e. resolve_gates (BasisList toks) prog = Inl e \<and> is_InvalidBasisError e"
  proof (cases "list_all (\<lambda>t. t \<in> set basis_1q_valid \<or> t \<in> set basis_2q_valid) toks")
    case True
    with bad have one: "length (filter (\<lambda>t. t \<in> set basis_1q_valid) toks) = 1"
      by (auto simp: list_all_iff)
    from True one have "parse_basis (BasisList toks) = Inl (ValueError NotSufficientSingleQubit)"
      by (simp add: parse_basis_def split_basis_valid)
    with assms show ?thesis by (simp add: resolve_gates_unitary)
  next
    case False
    from split_basis_invalid [OF this] obtain tok where
      "split_basis toks ([], []) = Inl (NotImplementedError (NotValidBasisGate tok))"
      by blast
    then have "parse_basis (BasisList toks) = Inl (NotImplementedError (NotValidBasisGate tok))"
      by (simp add: parse_basis_def)
    with assms show ?thesis by (simp add: resolve_gates_unitary)
  qed
next
  assume ok: "list_all (\<lambda>t. t \<in> set basis_1q_valid \<or> t \<in> set basis_2q_valid) toks
            \<and> filter (\<lambda>t. t \<in> set basis_1q_valid) toks = []"
  then show p: "parse_basis (BasisList toks)
      = Inr ([''RX'', ''RY'', ''RZ''], filter (\<lambda>t. t \<in> set basis_2q_valid) toks)"
    by (simp add: parse_basis_def split_basis_valid)
  from ok have
    "list_all (\<lambda>t. t \<in> set basis_1q_valid \<or> t \<in> set basis_2q_valid) (toks @ [''RX'', ''RY'', ''RZ''])"
    by (simp add: basis_1q_valid_def)
  moreover have "filter (\<lambda>t. t \<in> set basis_1q_valid) (toks @ [''RX'', ''RY'', ''RZ''])
      = [''RX'', ''RY'', ''RZ'']"
    using ok by (simp add: basis_1q_valid_def)
  moreover have "filter (\<lambda>t. t \<in> set basis_2q_valid) (toks @ [''RX'', ''RY'', ''RZ''])
      = filter (\<lambda>t. t \<in> set basis_2q_valid) toks"
    by (simp add: basis_2q_valid_def)
  ultimately have "parse_basis (BasisList (toks @ [''RX'', ''RY'', ''RZ'']))
      = Inr ([''RX'', ''RY'', ''RZ''], filter (\<lambda>t. t \<in> set basis_2q_valid) toks)"
    by (simp add: parse_basis_def split_basis_valid)
  with p assms show "resolve_gates (BasisList toks) prog
      = resolve_gates (BasisList (toks @ [''RX'', ''RY'', ''RZ''])) prog"
    by (simp add: resolve_gates_unitary)
  from p show "resolve_gates (BasisList toks) [] = Inr []"
    by (simp add: resolve_gates_def resolve_two_qubit_def apply_2q_basis_def
          resolve_2q_basis_def final_pass_def split: list.splits)
qed

theorem resolve_gates_basis_validation_witness:
  "(\<exists>e. resolve_gates (BasisList [''CNOT'', ''RX''])
          [GateOp (Gate ''SNOT'' (Some [0]) None None None)] = Inl e
        \<and> is_InvalidBasisError e)
   \<and> (\<exists>e. resolve_gates (BasisList [''CNOT'', ''RX'', ''U3'', ''RY''])
          [GateOp (Gate ''SNOT'' (Some [0]) None None None)] = Inl e
        \<and> is_InvalidBasisError e)
   \<and> parse_basis (BasisList [''CSIGN'']) = Inr ([''RX'', ''RY'', ''RZ''], [''CSIGN''])
   \<and> resolve_gates (BasisList [''CSIGN''])
          [GateOp (Gate ''SNOT'' (Some [0]) None None None)]
      = resolve_gates (BasisList [''CSIGN'', ''RX'', ''RY'', ''RZ''])
          [GateOp (Gate ''SNOT'' (Some [0]) None None None)]"
proof -
  have unitary: "filter is_measurement [GateOp (Gate ''SNOT'' (Some [0]) None None None)] = []"
    by simp
  show ?thesis
    using resolve_gates_basis_validation [OF unitary, where toks = "[''CNOT'', ''RX'']"]
          resolve_gates_basis_validation [OF unitary, where toks = "[''CNOT'', ''RX'', ''U3'', ''RY'']"]
          resolve_gates_basis_validation [OF unitary, where toks = "[''CSIGN'']"]
    by (simp add: basis_1q_valid_def basis_2q_valid_def)
qed



lemmas resolve_eval =
  resolve_gates_def parse_basis_def basis_1q_valid_def basis_2q_valid_def
  resolve_two_qubit_def apply_2q_basis_def resolve_2q_basis_def final_pass_def
  resolve_to_universal_def gate_method_def gate_IGNORED_def


text \<open>
  Claim C1 (the code departs from it).  For the program that holds one \<open>X\<close> gate,
  \<open>resolve_gates\<close> with the default basis returns the single gate \<open>RX(pi)\<close>: the
  phase gate \<open>GLOBALPHASE(pi/2)\<close> that the loop appended to \<open>qc_temp.gates\<close> is lost
  when \<open>qc_temp.gates\<close> is overwritten with \<open>temp_resolved\<close>.  With \<open>CSIGN\<close> as
  the two-qubit basis the same program keeps the phase gate.  The two outputs have the
  same gates apart from the phase, and their phase factors are \<open>1\<close> and \<open>\<i>\<close>: they
  cannot both multiply to the matrix of \<open>X\<close>.
\<close>

theorem resolve_gates_pauli_phase_dropped:
  "resolve_gates (BasisList [''CNOT'', ''RX'', ''RY'', ''RZ''])
      [GateOp (Gate ''X'' (Some [0]) None None None)]
     = Inr [Gate ''RX'' (Some [0]) None (Some pi) None]
   \<and> resolve_gates (BasisList [''CSIGN'', ''RX'', ''RY'', ''RZ''])
      [GateOp (Gate ''X'' (Some [0]) None None None)]
     = Inr [Gate ''GLOBALPHASE'' None None (Some (pi / 2)) None,
            Gate ''RX'' (Some [0]) None (Some pi) None]
   \<and> non_phase [Gate ''RX'' (Some [0]) None (Some pi) None]
     = non_phase [Gate ''GLOBALPHASE'' None None (Some (pi / 2)) None,
                  Gate ''RX'' (Some [0]) None (Some pi) None]
   \<and> emitted_phase [Gate ''RX'' (Some [0]) None (Some pi) None] = 1
   \<and> emitted_phase [Gate ''GLOBALPHASE'' None None (Some (pi / 2)) None,
                     Gate ''RX'' (Some [0]) None (Some pi) None] = \<i>"
  by (simp add: resolve_eval basis_CSIGN_gate_def non_phase_def emitted_phase_def)

section \<open>Properties of the circuit simulator\<close>

lemma py_index_0 [simp]: "py_index (x # xs) 0 = Inr x"
  by (simp add: py_index_def py_position_def)

lemma py_index_1 [simp]: "py_index (x # y # xs) 1 = Inr y"
  by (simp add: py_index_def py_position_def)

lemma py_store_0 [simp]: "py_store (x # xs) 0 v = Inr (v # xs)"
  by (simp add: py_store_def py_position_def)

lemmas engine1_eval =
  qubit_engine_def measurement_comp_basis_def apply_measurement_def choose_outcome_def
  evolve_state_def step_def run_session_def run_def initialize_def CircuitResult_single_def
  control_bits_def weighted_sum_def always0_def always1_def

text \<open>
  Claim C10.  A classical-bit list whose length differs from the declared number of
  classical bits is ignored by \<open>initialize\<close>: the classical bits are all zero when the
  circuit declares classical bits (and \<open>None\<close> otherwise), exactly as if no list had
  been given, and so \<open>run\<close> returns what it returns without the list.  \<open>initialize\<close>
  has no raise statement; in the model it returns a session, not an error.
\<close>

theorem initialize_ignores_mismatched_cbits:
  assumes "int (length cs) \<noteq> qc_num_cbits sim"
  shows "cbits (initialize eng sim d st (Some cs) mr)
           = (if qc_num_cbits sim > 0 then Some (replicate (nat (qc_num_cbits sim)) 0)
              else None)
       \<and> initialize eng sim d st (Some cs) mr = initialize eng sim d st None mr
       \<and> run eng rng sim d st (Some cs) mr = run eng rng sim d st None mr"
  using assms by (simp add: initialize_def run_def run_session_def)

theorem initialize_ignores_mismatched_cbits_witness:
  "cbits (initialize qubit_engine controlled_x 0 (Some (Ket 1 0)) (Some [1, 1, 1]) None)
     = Some [0]
   \<and> run qubit_engine always0 controlled_x 0 (Some (Ket 1 0)) (Some [1, 1, 1]) None
     = run qubit_engine always0 controlled_x 0 (Some (Ket 1 0)) None None"
proof -
  have "int (length [1, 1, 1 :: int]) \<noteq> qc_num_cbits controlled_x"
    by (simp add: controlled_x_def)
  from initialize_ignores_mismatched_cbits [OF this, of qubit_engine 0 "Some (Ket 1 0)" None always0]
  show ?thesis by (simp add: controlled_x_def initialize_def)
qed

text \<open>
  What \<open>step\<close> does on a gate with classical controls: the unitary is applied exactly
  when every referenced classical bit is non-zero; otherwise only the step cursor moves.
  The required value of the gate is not read.
\<close>

lemma step_controlled:
  assumes "op_index s < length (ops sim)"
      and "ops sim ! op_index s = ControlledStep g U"
      and "control_bits g (cbits s) = Inr bits"
  shows "step eng rng sim s =
           (if list_all (\<lambda>b. b \<noteq> 0) bits
              then ebind (evolve_state eng sim
                            (if precompute_unitary sim
                               then expand_operator eng U (qc_N sim) (get_all_qubits eng g)
                               else U) s)
                     (\<lambda>s'. Inr (s'\<lparr>op_index := op_index s' + 1\<rparr>))
              else Inr (s\<lparr>op_index := op_index s + 1\<rparr>))"
  using assms by (simp add: step_def)

text \<open>
  Claim C3 (the code departs from it).  The gate \<open>x_if_zero\<close> is controlled on
  classical bit 0 with required value 0.  With classical bit 0 equal to 0 its predicate
  holds, yet \<open>step\<close> leaves the state \<open>|0>\<close> as it is, where applying the gate gives
  \<open>|1>\<close>; with classical bit 0 equal to 1 the predicate is false, yet \<open>step\<close>
  applies the gate.
\<close>

theorem step_ignores_control_value:
  "classical_control_predicate x_if_zero [0]
   \<and> step qubit_engine always0 controlled_x
        (initialize qubit_engine controlled_x 0 (Some (Ket 1 0)) (Some [0]) None)
     = Inr ((initialize qubit_engine controlled_x 0 (Some (Ket 1 0)) (Some [0]) None)
              \<lparr>op_index := 1\<rparr>)
   \<and> evolve_state qubit_engine controlled_x (Oper 0 1 1 0)
        (initialize qubit_engine controlled_x 0 (Some (Ket 1 0)) (Some [0]) None)
     = Inr ((initialize qubit_engine controlled_x 0 (Some (Ket 1 0)) (Some [0]) None)
              \<lparr>state := Some (Ket 0 1)\<rparr>)
   \<and> \<not> classical_control_predicate x_if_zero [1]
   \<and> step qubit_engine always0 controlled_x
        (initialize qubit_engine controlled_x 0 (Some (Ket 1 0)) (Some [1]) None)
     = Inr ((initialize qubit_engine controlled_x 0 (Some (Ket 1 0)) (Some [1]) None)
              \<lparr>state := Some (Ket 0 1), op_index := 1\<rparr>)"
  by (simp add: classical_control_predicate_def required_bit_def required_value_def
        x_if_zero_def controlled_x_def engine1_eval)

text \<open>
  When the engine returns \<open>None\<close> exactly for the outcomes of probability zero, the
  two filters of the density branch keep matching entries.
\<close>

lemma filters_aligned:
  "list_all2 (\<lambda>st p. (st = None) = (p = 0)) sts ps \<Longrightarrow>
   zip (map the (filter (\<lambda>x. x \<noteq> None) sts)) (filter (\<lambda>x. x \<noteq> 0) ps)
     = nonzero_candidates sts ps"
proof (induction sts ps rule: list_all2_induct)
  case Nil
  then show ?case by simp
next
  case (Cons st sts p ps)
  then show ?case by (cases st) auto
qed

text \<open>
  Claim C5.  In \<open>density_matrix_simulator\<close> mode, a step on a measurement whose
  candidates the engine reports with \<open>None\<close> exactly at the outcomes of probability
  zero sets the state to the probability-weighted sum of the candidates with non-zero
  probability, and changes neither the accumulated probability nor the classical bits
  (nor the position in the forced outcomes, nor the random source).
\<close>

theorem density_measurement_no_branching:
  assumes "mode sim = ''density_matrix_simulator''"
      and "op_index s < length (ops sim)"
      and "ops sim ! op_index s = MeasureStep m"
      and "measurement_comp_basis eng m (state s) = Inr (sts, ps)"
      and "list_all2 (\<lambda>st p. (st = None) = (p = 0)) sts ps"
  shows "\<exists>s'. step eng rng sim s = Inr s'
           \<and> state s' = Some (weighted_sum eng (nonzero_candidates sts ps))
           \<and> probability s' = probability s
           \<and> cbits s' = cbits s
           \<and> measure_ind s' = measure_ind s
           \<and> draws s' = draws s"
  using assms by (simp add: step_def apply_measurement_def filters_aligned del: not_None_eq)

theorem density_measurement_no_branching_witness:
  "step qubit_engine always0 (measure_once ''density_matrix_simulator'')
     (initialize qubit_engine (measure_once ''density_matrix_simulator'') 0
        (Some (Oper (1/2) (1/2) (1/2) (1/2))) None None)
   = Inr \<lparr> state = Some (Oper (1/2) 0 0 (1/2)), probability = 1, cbits = None,
           op_index = 1, measure_results = None, measure_ind = 0, draws = 0 \<rparr>"
proof -
  let ?sim = "measure_once ''density_matrix_simulator''"
  let ?s = "initialize qubit_engine ?sim 0 (Some (Oper (1/2) (1/2) (1/2) (1/2))) None None"
  have m: "mode ?sim = ''density_matrix_simulator''" by (simp add: measure_once_def)
  have i: "op_index ?s < length (ops ?sim)" by (simp add: measure_once_def initialize_def)
  have o: "ops ?sim ! op_index ?s = MeasureStep (Measurement ''M0'' (Some [0]) None)"
    by (simp add: measure_once_def initialize_def)
  have c: "measurement_comp_basis qubit_engine (Measurement ''M0'' (Some [0]) None) (state ?s)
      = Inr ([Some (Oper 1 0 0 0), Some (Oper 0 0 0 1)], [1/2, 1/2])"
    by (simp add: measure_once_def initialize_def qubit_engine_def measurement_comp_basis_def)
  have a: "list_all2 (\<lambda>st p. (st = None) = (p = 0))
      [Some (Oper 1 0 0 0), Some (Oper 0 0 0 1)] [1/2, 1/2 :: real]"
    by simp
  from density_measurement_no_branching [OF m i o c a, of always0]
  obtain s' where s': "step qubit_engine always0 ?sim ?s = Inr s'"
    and st: "state s' = Some (weighted_sum qubit_engine
               (nonzero_candidates [Some (Oper 1 0 0 0), Some (Oper 0 0 0 1)] [1/2, 1/2]))"
    and rest: "probability s' = probability ?s" "cbits s' = cbits ?s"
      "measure_ind s' = measure_ind ?s" "draws s' = draws ?s"
    by blast
  have "op_index s' = 1" "measure_results s' = None"
    using s' by (auto simp: step_def apply_measurement_def measure_once_def initialize_def
        measurement_comp_basis_def qubit_engine_def)
  with st rest have "s' = \<lparr> state = Some (Oper (1/2) 0 0 (1/2)), probability = 1, cbits = None,
           op_index = 1, measure_results = None, measure_ind = 0, draws = 0 \<rparr>"
    by (cases s') (simp add: weighted_sum_def qubit_engine_def initialize_def measure_once_def)
  with s' show ?thesis by simp
qed

subsection \<open>Forced outcomes\<close>

text \<open>
  With a forced outcome sequence that is true as a condition, a step neither reads the
  random source nor samples it: run from a session that differs only in the count of
  samples, with any other random source, it gives the same result up to the count.
\<close>

lemma redraw_fields [simp]:
  "state (redraw d s) = state s"
  "probability (redraw d s) = probability s"
  "cbits (redraw d s) = cbits s"
  "op_index (redraw d s) = op_index s"
  "measure_results (redraw d s) = measure_results s"
  "measure_ind (redraw d s) = measure_ind s"
  "draws (redraw d s) = d"
  by (simp_all add: redraw_def)

lemma evolve_state_redraw:
  "evolve_state eng sim U (redraw d s) = map_sum id (redraw d) (evolve_state eng sim U s)"
  by (simp add: evolve_state_def redraw_def split: option.splits)

lemma choose_outcome_redraw:
  "truthy (measure_results s) \<Longrightarrow>
   choose_outcome rng' probs (redraw d s)
     = map_sum id (\<lambda>(i, ps, t). (i, ps, redraw d t)) (choose_outcome rng probs s)"
  by (simp add: choose_outcome_def redraw_def)

lemma apply_measurement_redraw:
  assumes "truthy (measure_results s)"
  shows "apply_measurement eng rng' sim m (redraw d s)
           = map_sum id (redraw d) (apply_measurement eng rng sim m s)"
proof (cases "measurement_comp_basis eng m (state s)")
  case (Inl e)
  then show ?thesis by (simp add: apply_measurement_def)
next
  case (Inr r)
  obtain sts ps where r: "r = (sts, ps)" by (cases r)
  show ?thesis
  proof (cases "mode sim = ''state_vector_simulator''")
    case False
    with Inr r show ?thesis by (simp add: apply_measurement_def redraw_def)
  next
    case True
    show ?thesis
    proof (cases "choose_outcome rng ps s")
      case (Inl e)
      with \<open>measurement_comp_basis eng m (state s) = Inr r\<close> r True
        choose_outcome_redraw [OF assms, of rng' ps d rng]
      show ?thesis by (simp add: apply_measurement_def)
    next
      case (Inr c)
      obtain i probs s1 where c: "c = (i, probs, s1)" by (cases c)
      from Inr c choose_outcome_redraw [OF assms, of rng' ps d rng]
      have co: "choose_outcome rng' ps (redraw d s) = Inr (i, probs, redraw d s1)"
        by simp
      from \<open>measurement_comp_basis eng m (state s) = Inr r\<close> r True Inr c co
      show ?thesis
        by (simp add: apply_measurement_def redraw_def Let_def ebind_def
              split: sum.splits option.splits)
    qed
  qed
qed

lemma bump_redraw:
  assumes "inner' = map_sum id (redraw d) inner"
  shows "ebind inner' (\<lambda>s'. Inr (s'\<lparr>op_index := Suc (op_index s')\<rparr>))
           = map_sum id (redraw d)
               (ebind inner (\<lambda>s'. Inr (s'\<lparr>op_index := Suc (op_index s')\<rparr>)))"
  unfolding assms by (cases inner) (simp_all add: redraw_def)

lemma step_redraw:
  assumes "truthy (measure_results s)"
  shows "step eng rng' sim (redraw d s) = map_sum id (redraw d) (step eng rng sim s)"
proof (cases "op_index s < length (ops sim)")
  case False
  then show ?thesis by (simp add: step_def)
next
  case True
  show ?thesis
  proof (cases "ops sim ! op_index s")
    case (MeasureStep m)
    with True show ?thesis
      by (simp add: step_def
            bump_redraw [OF apply_measurement_redraw [OF assms, of eng rng' sim m d rng]])
  next
    case (UnitaryStep U)
    with True show ?thesis
      by (simp add: step_def bump_redraw [OF evolve_state_redraw])
  next
    case (ControlledStep g U)
    show ?thesis
    proof (cases "control_bits g (cbits s)")
      case (Inl e)
      with True ControlledStep show ?thesis by (simp add: step_def)
    next
      case (Inr bits)
      show ?thesis
      proof (cases "list_all (\<lambda>b. b \<noteq> 0) bits")
        case yes: True
        with True ControlledStep Inr show ?thesis
          by (simp add: step_def bump_redraw [OF evolve_state_redraw])
      next
        case no: False
        with True ControlledStep Inr show ?thesis
          by (simp add: step_def redraw_def)
      qed
    qed
  qed
qed

lemma step_keeps_forced:
  assumes "step eng rng sim s = Inr t"
  shows "measure_results t = measure_results s"
    and "truthy (measure_results s) \<Longrightarrow> draws t = draws s"
  using assms
  by (auto simp: step_def apply_measurement_def choose_outcome_def evolve_state_def Let_def
        ebind_def split: if_splits sum.splits option.splits sim_op.splits prod.splits)

lemma run_steps_redraw:
  "truthy (measure_results s) \<Longrightarrow>
   run_steps eng rng' sim n (redraw d s) = map_sum id (redraw d) (run_steps eng rng sim n s)"
proof (induction n arbitrary: s)
  case 0
  then show ?case by simp
next
  case (Suc n)
  show ?case
  proof (cases "step eng rng sim s")
    case (Inl e)
    with step_redraw [OF Suc.prems, of eng rng' sim d rng] show ?thesis by simp
  next
    case (Inr t)
    with step_redraw [OF Suc.prems, of eng rng' sim d rng]
    have t': "step eng rng' sim (redraw d s) = Inr (redraw d t)" by simp
    from step_keeps_forced(1) [OF Inr] Suc.prems have "truthy (measure_results t)" by simp
    from Suc.IH [OF this] Inr t' show ?thesis by simp
  qed
qed

lemma run_steps_draws:
  "truthy (measure_results s) \<Longrightarrow> run_steps eng rng sim n s = Inr t \<Longrightarrow> draws t = draws s"
proof (induction n arbitrary: s)
  case 0
  then show ?case by simp
next
  case (Suc n)
  from Suc.prems(2) obtain s' where s': "step eng rng sim s = Inr s'"
    and rest: "(if state s' = None then Inr s' else run_steps eng rng sim n s') = Inr t"
    by (auto dest!: ebind_Inr)
  from step_keeps_forced [OF s'] Suc.prems(1)
  have keep: "truthy (measure_results s')" "draws s' = draws s" by simp_all
  show ?case
  proof (cases "state s' = None")
    case True
    with rest keep show ?thesis by simp
  next
    case False
    with rest have "run_steps eng rng sim n s' = Inr t" by simp
    from Suc.IH [OF keep(1) this] keep(2) show ?thesis by simp
  qed
qed

text \<open>
  Claim C6, as amended.  Two calls of \<open>run\<close> with the same non-empty forced outcome
  sequence, the same initial state and the same initial classical bits return the same
  result (the same error, or the same final state, probability and classical bits),
  whatever the random source and however often it has been sampled before; and such a
  run does not sample the random source.
\<close>

theorem run_forced_deterministic:
  assumes "forced \<noteq> []"
  shows "run eng rng sim d st cb (Some forced) = run eng rng' sim d' st cb (Some forced)
       \<and> (\<forall>s. run_session eng rng sim d st cb (Some forced) = Inr s \<longrightarrow> draws s = d)"
proof -
  let ?s = "initialize eng sim d st cb (Some forced)"
  from assms have forced: "truthy (measure_results ?s)" by (simp add: initialize_def)
  have init: "initialize eng sim d' st cb (Some forced) = redraw d' ?s"
    by (simp add: initialize_def redraw_def)
  have "run_session eng rng' sim d' st cb (Some forced)
      = map_sum id (redraw d') (run_session eng rng sim d st cb (Some forced))"
    unfolding run_session_def init by (rule run_steps_redraw [OF forced])
  then have "run eng rng' sim d' st cb (Some forced) = run eng rng sim d st cb (Some forced)"
    by (cases "run_session eng rng sim d st cb (Some forced)") (simp_all add: run_def)
  moreover have "draws s = d" if "run_session eng rng sim d st cb (Some forced) = Inr s" for s
    using run_steps_draws [OF forced] that by (simp add: run_session_def initialize_def)
  ultimately show ?thesis by simp
qed

theorem run_forced_deterministic_witness:
  "run qubit_engine always0 measure_then_x 0 (Some (Ket (3/5) (4/5))) None (Some [1])
     = run qubit_engine always1 measure_then_x 7 (Some (Ket (3/5) (4/5))) None (Some [1])
   \<and> run qubit_engine always0 measure_then_x 0 (Some (Ket 0 1)) None (Some [1])
     = Inr \<lparr> final_states = [Some (Ket 1 0)], probabilities = [1],
             result_cbits = Some [Some [1]] \<rparr>"
proof -
  have ne: "[1 :: int] \<noteq> []" by simp
  have "run qubit_engine always0 measure_then_x 0 (Some (Ket 0 1)) None (Some [1])
     = Inr \<lparr> final_states = [Some (Ket 1 0)], probabilities = [1],
             result_cbits = Some [Some [1]] \<rparr>"
    by (simp add: measure_then_x_def engine1_eval)
  with run_forced_deterministic [OF ne, of qubit_engine always0 measure_then_x 0
      "Some (Ket (3/5) (4/5))" None always1 7]
  show ?thesis by simp
qed

text \<open>
  Claim C6 as stated fails for the empty forced sequence: it is false as a condition, so
  the measurement samples the random source, and two runs that agree on the sequence,
  the initial state and the classical bits differ with the samples.
\<close>

theorem run_empty_forced_counterexample:
  "run qubit_engine always0 (measure_once ''state_vector_simulator'') 0
       (Some (Ket (3/5) (4/5))) None (Some [])
   \<noteq> run qubit_engine always1 (measure_once ''state_vector_simulator'') 0
       (Some (Ket (3/5) (4/5))) None (Some [])"
  by (simp add: measure_once_def engine1_eval)

subsection \<open>\<open>run_statistics\<close>\<close>














end
